theory Spec2Isabelle
  imports Complex_Main
begin

section \<open>vtkWarpTransform: data model\<close>

text \<open>
  The numerical inverter of \<^verbatim>\<open>vtkWarpTransform.cxx\<close>. A \<^verbatim>\<open>double\<close> is modelled by a
  real number: arithmetic is exact, rounding and overflow are not modelled. The one place
  where a real quotient and an IEEE quotient differ on every machine, division by zero,
  is modelled as IEEE does it (see \<open>ieee_div\<close>). A \<^verbatim>\<open>float\<close> is a type parameter
  \<open>'f\<close> with the two conversions between it and \<^verbatim>\<open>double\<close>.

  A \<^verbatim>\<open>double[3]\<close> is a triple, a \<^verbatim>\<open>double[3][3]\<close> a triple of rows, so that
  \<^verbatim>\<open>derivative[i][j]\<close> is component \<open>j\<close> of row \<open>i\<close>.
\<close>

type_synonym 'a vec3 = "'a \<times> 'a \<times> 'a"
type_synonym 'a mat3 = "'a vec3 \<times> 'a vec3 \<times> 'a vec3"

text \<open>
  The fields of the class that this file reads and writes. \<open>MTime\<close> stands for the
  modification time of the parent class.
\<close>

record vtkWarpTransform =
  InverseFlag :: int
  InverseTolerance :: real
  InverseIterations :: int
  MTime :: nat

text \<open>
  What the file calls and does not define: the pure virtual forward transform of the
  concrete warp, at both precisions, the 3x3 utilities of \<^verbatim>\<open>vtkMath\<close>, and the
  conversions that C++ inserts between \<^verbatim>\<open>float\<close> and \<^verbatim>\<open>double\<close>. They are
  parameters of every function below.
\<close>

record 'f warp =
  ForwardTransformPoint_d :: "real vec3 \<Rightarrow> real vec3"
  ForwardTransformDerivative_d :: "real vec3 \<Rightarrow> real vec3 \<times> real mat3"
  ForwardTransformPoint_f :: "'f vec3 \<Rightarrow> 'f vec3"
  ForwardTransformDerivative_f :: "'f vec3 \<Rightarrow> 'f vec3 \<times> 'f mat3"
  LinearSolve3x3 :: "real mat3 \<Rightarrow> real vec3 \<Rightarrow> real vec3"
  Invert3x3_d :: "real mat3 \<Rightarrow> real mat3"
  Invert3x3_f :: "'f mat3 \<Rightarrow> 'f mat3"
  to_double :: "'f \<Rightarrow> real"
  to_float :: "real \<Rightarrow> 'f"

text \<open>The constructor.\<close>

definition vtkWarpTransform_new :: vtkWarpTransform where
  "vtkWarpTransform_new =
     \<lparr>InverseFlag = 0, InverseTolerance = 1 / 1000, InverseIterations = 500, MTime = 0\<rparr>"

text \<open>
  Modelled from the spec: \<^verbatim>\<open>vtkObject::Modified\<close> is not in this file; the spec says
  that it marks the component changed for the version tracking of the parent, here a
  counter that grows.
\<close>

definition Modified :: "vtkWarpTransform \<Rightarrow> vtkWarpTransform" where
  "Modified T = T\<lparr>MTime := MTime T + 1\<rparr>"

text \<open>\<^verbatim>\<open>this->InverseFlag = !this->InverseFlag; this->Modified();\<close>\<close>

definition Inverse :: "vtkWarpTransform \<Rightarrow> vtkWarpTransform" where
  "Inverse T = Modified (T\<lparr>InverseFlag := (if InverseFlag T = 0 then 1 else 0)\<rparr>)"

section \<open>Arithmetic on three components\<close>

fun vmap :: "('a \<Rightarrow> 'b) \<Rightarrow> 'a vec3 \<Rightarrow> 'b vec3" where
  "vmap g (a0, a1, a2) = (g a0, g a1, g a2)"

fun vsub :: "real vec3 \<Rightarrow> real vec3 \<Rightarrow> real vec3" where
  "vsub (a0, a1, a2) (b0, b1, b2) = (a0 - b0, a1 - b1, a2 - b2)"

text \<open>\<^verbatim>\<open>inverse[k] -= 2*(inverse[k]-point[k])\<close>, the first guess.\<close>

fun first_guess :: "real vec3 \<Rightarrow> real vec3 \<Rightarrow> real vec3" where
  "first_guess (f0, f1, f2) (p0, p1, p2) =
     (f0 - 2 * (f0 - p0), f1 - 2 * (f1 - p1), f2 - 2 * (f2 - p2))"

text \<open>\<^verbatim>\<open>deltaP[0]*deltaP[0] + deltaP[1]*deltaP[1] + deltaP[2]*deltaP[2]\<close>\<close>

fun sumsq :: "real vec3 \<Rightarrow> real" where
  "sumsq (d0, d1, d2) = d0 * d0 + d1 * d1 + d2 * d2"

text \<open>\<^verbatim>\<open>gradient[k] = deltaP[k]*derivative[k][k]*2\<close>\<close>

fun gradient_of :: "real vec3 \<Rightarrow> real mat3 \<Rightarrow> real vec3" where
  "gradient_of (d0, d1, d2) ((m00, m01, m02), (m10, m11, m12), (m20, m21, m22)) =
     (d0 * m00 * 2, d1 * m11 * 2, d2 * m22 * 2)"

fun dot :: "real vec3 \<Rightarrow> real vec3 \<Rightarrow> real" where
  "dot (a0, a1, a2) (b0, b1, b2) = a0 * b0 + a1 * b1 + a2 * b2"

text \<open>\<^verbatim>\<open>inverse[k] = lastInverse[k] - f*deltaI[k]\<close>\<close>

fun fractional_step :: "real vec3 \<Rightarrow> real \<Rightarrow> real vec3 \<Rightarrow> real vec3" where
  "fractional_step (l0, l1, l2) f (d0, d1, d2) = (l0 - f * d0, l1 - f * d1, l2 - f * d2)"

subsection \<open>The quotient of the backtracking step\<close>

text \<open>
  \<^verbatim>\<open>f = lastErrorSquaredD/(2*(errorSquared-lastErrorSquared-lastErrorSquaredD))\<close>
  divides two doubles, and the divisor can be zero. In HOL \<open>x / 0 = 0\<close>; in IEEE
  arithmetic the quotient is an infinity with the sign of the dividend, or not a number
  for \<open>0 / 0\<close>. (The divisor is a difference, so a zero there is \<open>+0\<close>.)
\<close>

datatype quotient = Finite real | PosInf | NegInf | NaN

definition ieee_div :: "real \<Rightarrow> real \<Rightarrow> quotient" where
  "ieee_div a b =
     (if b \<noteq> 0 then Finite (a / b)
      else if 0 < a then PosInf
      else if a < 0 then NegInf
      else NaN)"

text \<open>
  \<^verbatim>\<open>if (f < 0.1) f = 0.1; if (f > 0.5) f = 0.5;\<close> Both comparisons are false on
  not-a-number, which then stays: \<open>None\<close>.
\<close>

definition clamp_fraction :: "quotient \<Rightarrow> real option" where
  "clamp_fraction q =
     (case q of
        Finite f \<Rightarrow>
          (let f1 = (if f < 1 / 10 then 1 / 10 else f)
           in Some (if f1 > 1 / 2 then 1 / 2 else f1))
      | PosInf \<Rightarrow> Some (1 / 2)
      | NegInf \<Rightarrow> Some (1 / 10)
      | NaN \<Rightarrow> None)"

section \<open>The Newton solver\<close>

text \<open>
  The calls of the forward transform, in the order the solver makes them, and what each
  pass of the loop did: these two are kept beside the variables of the source, for the
  statements about the number of evaluations and about the sequence of errors.
\<close>

datatype fwd_call = FwdPoint "real vec3" | FwdDerivative "real vec3"

record iteration =
  full_step :: "real vec3"
  full_error :: real
  fraction :: "real option"
  candidate :: "real vec3"
  error :: real

text \<open>The variables of \<^verbatim>\<open>InverseTransformPoint\<close> that live across passes of the loop.\<close>

record iter_state =
  inverse :: "real vec3"
  deltaP :: "real vec3"
  derivative :: "real mat3"
  errorSquared :: real
  calls :: "fwd_call list"

datatype solver_error = NotANumber

text \<open>
  Lines 163 to 174: the first guess is put through the transform. \<open>cs\<close> is the list of
  calls made before.
\<close>

definition evaluate_at :: "'f warp \<Rightarrow> real vec3 \<Rightarrow> fwd_call list \<Rightarrow> real vec3 \<Rightarrow> iter_state" where
  "evaluate_at W point cs x =
     (let (fp, d) = ForwardTransformDerivative_d W x;
          dP = vsub fp point
      in \<lparr>inverse = x, deltaP = dP, derivative = d, errorSquared = sumsq dP,
          calls = cs @ [FwdDerivative x]\<rparr>)"

text \<open>
  One pass of the loop body, lines 181 to 254. It returns the new variables and the
  record of the pass. Not-a-number as the fraction leaves the model of doubles as real
  numbers and is reported as an error; \<open>newton_step_total\<close> shows that it never arises.
\<close>

definition newton_step ::
  "'f warp \<Rightarrow> real vec3 \<Rightarrow> iter_state \<Rightarrow> solver_error + (iter_state \<times> iteration)" where
  "newton_step W point s =
     (let lastErrorSquared = errorSquared s;
          deltaI = LinearSolve3x3 W (derivative s) (deltaP s);
          lastInverse = inverse s;
          gradient = gradient_of (deltaP s) (derivative s);
          s1 = evaluate_at W point (calls s) (vsub lastInverse deltaI)
      in if errorSquared s1 > lastErrorSquared then
           (let lastErrorSquaredD = dot gradient deltaI
            in case clamp_fraction
                 (ieee_div lastErrorSquaredD
                    (2 * (errorSquared s1 - lastErrorSquared - lastErrorSquaredD))) of
                 None \<Rightarrow> Inl NotANumber
               | Some f \<Rightarrow>
                   (let s2 = evaluate_at W point (calls s1) (fractional_step lastInverse f deltaI)
                    in Inr (s2, \<lparr>full_step = inverse s1, full_error = errorSquared s1,
                                 fraction = Some f, candidate = inverse s2,
                                 error = errorSquared s2\<rparr>)))
         else Inr (s1, \<lparr>full_step = inverse s1, full_error = errorSquared s1,
                        fraction = None, candidate = inverse s1, error = errorSquared s1\<rparr>))"

text \<open>
  \<^verbatim>\<open>for (i = 0; i < n && errorSquared > toleranceSquared; i++)\<close>: the result is the
  final \<open>i\<close>, the final variables and the records of the passes made.
\<close>

function newton_loop ::
  "'f warp \<Rightarrow> real vec3 \<Rightarrow> real \<Rightarrow> int \<Rightarrow> int \<Rightarrow> iter_state
     \<Rightarrow> solver_error + (int \<times> iter_state \<times> iteration list)" where
  "newton_loop W point toleranceSquared n i s =
     (if i < n \<and> errorSquared s > toleranceSquared then
        (case newton_step W point s of
           Inl e \<Rightarrow> Inl e
         | Inr (s', it) \<Rightarrow>
             (case newton_loop W point toleranceSquared n (i + 1) s' of
                Inl e \<Rightarrow> Inl e
              | Inr (k, sf, its) \<Rightarrow> Inr (k, sf, it # its)))
      else Inr (i, s, []))"
  by pat_completeness auto
termination
  by (relation "measure (\<lambda>(W, point, toleranceSquared, n, i, s). nat (n - i))") auto

declare newton_loop.simps [simp del]

text \<open>
  \<^verbatim>\<open>vtkWarningMacro("InverseTransformPoint: no convergence (" << point ... ") error = "
  << sqrt(errorSquared) << " after " << i << " iterations.")\<close>
\<close>

datatype warning = NoConvergence "real vec3" real int

record inverse_result =
  output_pt :: "real vec3"
  iterations :: int
  residualSquared :: real
  debug_iterations :: int
  warning :: "warning option"
  forward_calls :: "fwd_call list"
  history :: "iteration list"

text \<open>
  \<^verbatim>\<open>InverseTransformPoint(const double point[3], double output[3])\<close>. The warning
  prints \<^verbatim>\<open>point\<close> after \<^verbatim>\<open>output\<close> has been written: \<open>in_place\<close> says that the
  caller passed the same array for both, as the \<^verbatim>\<open>float\<close> version does. Nothing else
  depends on it, since \<^verbatim>\<open>output\<close> is written after the last use of \<^verbatim>\<open>point\<close> by the
  loop. The double entry points are modelled for a caller that passes two arrays.

  The loop counter is a C \<^verbatim>\<open>int\<close>; it never exceeds the budget, itself an \<^verbatim>\<open>int\<close>, so
  it does not wrap. \<open>debug_iterations\<close> is what \<^verbatim>\<open>vtkDebugMacro\<close> prints, \<open>i + 1\<close>.
\<close>

definition InverseTransformPoint_run ::
  "'f warp \<Rightarrow> vtkWarpTransform \<Rightarrow> bool \<Rightarrow> real vec3 \<Rightarrow> solver_error + inverse_result" where
  "InverseTransformPoint_run W T in_place point =
     (let toleranceSquared = InverseTolerance T * InverseTolerance T;
          inverse0 = first_guess (ForwardTransformPoint_d W point) point;
          s0 = evaluate_at W point [FwdPoint point] inverse0;
          n = InverseIterations T
      in case newton_loop W point toleranceSquared n 0 s0 of
           Inl e \<Rightarrow> Inl e
         | Inr (i, s, its) \<Rightarrow>
             Inr \<lparr>output_pt = inverse s, iterations = i, residualSquared = errorSquared s,
                  debug_iterations = i + 1,
                  warning =
                    (if i \<ge> InverseIterations T then
                       Some (NoConvergence (if in_place then inverse s else point)
                               (sqrt (errorSquared s)) i)
                     else None),
                  forward_calls = calls s, history = its\<rparr>)"

definition InverseTransformPoint_d ::
  "'f warp \<Rightarrow> vtkWarpTransform \<Rightarrow> real vec3 \<Rightarrow> solver_error + inverse_result" where
  "InverseTransformPoint_d W T point = InverseTransformPoint_run W T False point"

text \<open>
  \<^verbatim>\<open>InverseTransformPoint(const float point[3], float output[3])\<close>:
  convert float to double and back again.
\<close>

definition InverseTransformPoint_f ::
  "'f warp \<Rightarrow> vtkWarpTransform \<Rightarrow> 'f vec3 \<Rightarrow> solver_error + ('f vec3 \<times> warning option)" where
  "InverseTransformPoint_f W T point =
     (let dpoint = vmap (to_double W) point
      in case InverseTransformPoint_run W T True dpoint of
           Inl e \<Rightarrow> Inl e
         | Inr r \<Rightarrow> Inr (vmap (to_float W) (output_pt r), warning r))"

section \<open>Dispatch on the inverse flag\<close>

definition InternalTransformPoint_f ::
  "'f warp \<Rightarrow> vtkWarpTransform \<Rightarrow> 'f vec3 \<Rightarrow> solver_error + ('f vec3 \<times> warning option)" where
  "InternalTransformPoint_f W T input =
     (if InverseFlag T \<noteq> 0 then InverseTransformPoint_f W T input
      else Inr (ForwardTransformPoint_f W input, None))"

definition InternalTransformPoint_d ::
  "'f warp \<Rightarrow> vtkWarpTransform \<Rightarrow> real vec3 \<Rightarrow> solver_error + (real vec3 \<times> warning option)" where
  "InternalTransformPoint_d W T input =
     (if InverseFlag T \<noteq> 0 then
        (case InverseTransformPoint_d W T input of
           Inl e \<Rightarrow> Inl e
         | Inr r \<Rightarrow> Inr (output_pt r, warning r))
      else Inr (ForwardTransformPoint_d W input, None))"

text \<open>
  \<^verbatim>\<open>InternalTransformDerivative\<close>: in the inverse case the forward derivative is taken
  at a copy of the input, the output point is then overwritten by the inverse point, and
  the derivative is inverted in place.
\<close>

definition InternalTransformDerivative_f ::
  "'f warp \<Rightarrow> vtkWarpTransform \<Rightarrow> 'f vec3
     \<Rightarrow> solver_error + ('f vec3 \<times> 'f mat3 \<times> warning option)" where
  "InternalTransformDerivative_f W T input =
     (if InverseFlag T \<noteq> 0 then
        (let tmp = input;
             (output0, derivative0) = ForwardTransformDerivative_f W tmp
         in case InverseTransformPoint_f W T tmp of
              Inl e \<Rightarrow> Inl e
            | Inr (output1, w) \<Rightarrow> Inr (output1, Invert3x3_f W derivative0, w))
      else (let (output0, derivative0) = ForwardTransformDerivative_f W input
            in Inr (output0, derivative0, None)))"

definition InternalTransformDerivative_d ::
  "'f warp \<Rightarrow> vtkWarpTransform \<Rightarrow> real vec3
     \<Rightarrow> solver_error + (real vec3 \<times> real mat3 \<times> warning option)" where
  "InternalTransformDerivative_d W T input =
     (if InverseFlag T \<noteq> 0 then
        (let tmp = input;
             (output0, derivative0) = ForwardTransformDerivative_d W tmp
         in case InverseTransformPoint_d W T tmp of
              Inl e \<Rightarrow> Inl e
            | Inr r \<Rightarrow> Inr (output_pt r, Invert3x3_d W derivative0, warning r))
      else (let (output0, derivative0) = ForwardTransformDerivative_d W input
            in Inr (output0, derivative0, None)))"

section \<open>Calls on an instance\<close>

text \<open>
  A call of a member function takes the instance and returns it with the outcome.
  \<^verbatim>\<open>Inverse\<close> is the one member function of the file that assigns to a field; the evaluation
  functions contain no assignment to \<^verbatim>\<open>this\<close>.
\<close>

datatype 'f member_call =
    Call_Inverse
  | Call_InternalTransformPoint_d "real vec3"
  | Call_InternalTransformPoint_f "'f vec3"
  | Call_InternalTransformDerivative_d "real vec3"
  | Call_InternalTransformDerivative_f "'f vec3"

datatype 'f outcome =
    Returned
  | Point_d "solver_error + (real vec3 \<times> warning option)"
  | Point_f "solver_error + ('f vec3 \<times> warning option)"
  | Derivative_d "solver_error + (real vec3 \<times> real mat3 \<times> warning option)"
  | Derivative_f "solver_error + ('f vec3 \<times> 'f mat3 \<times> warning option)"

fun invoke :: "'f warp \<Rightarrow> vtkWarpTransform \<Rightarrow> 'f member_call \<Rightarrow> vtkWarpTransform \<times> 'f outcome" where
  "invoke W T Call_Inverse = (Inverse T, Returned)"
| "invoke W T (Call_InternalTransformPoint_d x) = (T, Point_d (InternalTransformPoint_d W T x))"
| "invoke W T (Call_InternalTransformPoint_f x) = (T, Point_f (InternalTransformPoint_f W T x))"
| "invoke W T (Call_InternalTransformDerivative_d x) =
     (T, Derivative_d (InternalTransformDerivative_d W T x))"
| "invoke W T (Call_InternalTransformDerivative_f x) =
     (T, Derivative_f (InternalTransformDerivative_f W T x))"

fun is_evaluation :: "'f member_call \<Rightarrow> bool" where
  "is_evaluation Call_Inverse = False"
| "is_evaluation _ = True"

section \<open>Notions used in the statements\<close>

fun vscale :: "real \<Rightarrow> real vec3 \<Rightarrow> real vec3" where
  "vscale c (a0, a1, a2) = (c * a0, c * a1, c * a2)"

fun is_derivative_call :: "fwd_call \<Rightarrow> bool" where
  "is_derivative_call (FwdDerivative x) = True"
| "is_derivative_call (FwdPoint x) = False"

text \<open>A sequence of errors that never grows from one entry to the next.\<close>

fun nonincreasing :: "real list \<Rightarrow> bool" where
  "nonincreasing (a # b # xs) = (b \<le> a \<and> nonincreasing (b # xs))"
| "nonincreasing xs = True"

text \<open>
  What the loop does guarantee about the errors it records, starting from the error \<open>e\<close>
  before the first pass: a pass that kept the full Newton step did not raise the error,
  and a pass that took a fractional step did so because the full step had raised it.
\<close>

fun guarded_descent :: "real \<Rightarrow> iteration list \<Rightarrow> bool" where
  "guarded_descent e [] = True"
| "guarded_descent e (it # its) =
     ((if fraction it = None then error it \<le> e \<and> full_error it = error it
       else e < full_error it)
      \<and> guarded_descent (error it) its)"

text \<open>The returned point has the smallest error of all the candidates of the passes.\<close>

definition returns_best :: "inverse_result \<Rightarrow> bool" where
  "returns_best r = list_all (\<lambda>it. residualSquared r \<le> error it) (history r)"

text \<open>The candidate and the error that the loop holds after the passes \<open>its\<close>.\<close>

fun last_candidate :: "real vec3 \<Rightarrow> iteration list \<Rightarrow> real vec3" where
  "last_candidate x [] = x"
| "last_candidate x (it # its) = last_candidate (candidate it) its"

fun last_error :: "real \<Rightarrow> iteration list \<Rightarrow> real" where
  "last_error e [] = e"
| "last_error e (it # its) = last_error (error it) its"

text \<open>
  The reading of a narrow entry point as a shim: convert the input to wide precision, run
  the wide entry point, convert the point back.
\<close>

definition shim_of_point ::
  "'f warp \<Rightarrow> (solver_error + (real vec3 \<times> warning option)) \<Rightarrow> solver_error + 'f vec3" where
  "shim_of_point W res =
     (case res of Inl e \<Rightarrow> Inl e | Inr (p, w) \<Rightarrow> Inr (vmap (to_float W) p))"

definition point_of :: "(solver_error + ('p \<times> warning option)) \<Rightarrow> solver_error + 'p" where
  "point_of res = (case res of Inl e \<Rightarrow> Inl e | Inr (p, w) \<Rightarrow> Inr p)"

definition iterations_of :: "(solver_error + inverse_result) \<Rightarrow> int option" where
  "iterations_of res = (case res of Inl e \<Rightarrow> None | Inr r \<Rightarrow> Some (iterations r))"

section \<open>Concrete warps\<close>

text \<open>
  Modelled from the spec: \<^verbatim>\<open>vtkMath::LinearSolve3x3\<close> and \<^verbatim>\<open>vtkMath::Invert3x3\<close>
  are not in this file; the spec has them solve \<open>matrix \<cdot> x = rhs\<close> and invert the
  matrix, for a matrix that is not singular. In exact arithmetic that is Cramer's rule.
  These instances are used at matrices with a determinant other than zero only.
\<close>

fun LinearSolve3x3_exact :: "real mat3 \<Rightarrow> real vec3 \<Rightarrow> real vec3" where
  "LinearSolve3x3_exact ((a, b, c), (d, e, f), (g, h, i)) (x, y, z) =
     (let det = a * (e * i - f * h) - b * (d * i - f * g) + c * (d * h - e * g)
      in ((x * (e * i - f * h) - b * (y * i - f * z) + c * (y * h - e * z)) / det,
          (a * (y * i - f * z) - x * (d * i - f * g) + c * (d * z - y * g)) / det,
          (a * (e * z - y * h) - b * (d * z - y * g) + x * (d * h - e * g)) / det))"

fun Invert3x3_exact :: "real mat3 \<Rightarrow> real mat3" where
  "Invert3x3_exact ((a, b, c), (d, e, f), (g, h, i)) =
     (let det = a * (e * i - f * h) - b * (d * i - f * g) + c * (d * h - e * g)
      in (((e * i - f * h) / det, (c * h - b * i) / det, (b * f - c * e) / det),
          ((f * g - d * i) / det, (a * i - c * g) / det, (c * d - a * f) / det),
          ((d * h - e * g) / det, (b * g - a * h) / det, (a * e - b * d) / det)))"

text \<open>
  A warp given by its wide forward transform alone: the narrow type is the wide one and
  the conversions change nothing.
\<close>

definition exact_warp ::
  "(real vec3 \<Rightarrow> real vec3) \<Rightarrow> (real vec3 \<Rightarrow> real vec3 \<times> real mat3) \<Rightarrow> real warp" where
  "exact_warp F D =
     \<lparr>ForwardTransformPoint_d = F, ForwardTransformDerivative_d = D,
      ForwardTransformPoint_f = F, ForwardTransformDerivative_f = D,
      LinearSolve3x3 = LinearSolve3x3_exact,
      Invert3x3_d = Invert3x3_exact, Invert3x3_f = Invert3x3_exact,
      to_double = (\<lambda>a. a), to_float = (\<lambda>a. a)\<rparr>"

definition identity3 :: "real mat3" where
  "identity3 = ((1, 0, 0), (0, 1, 0), (0, 0, 1))"

text \<open>The identity transform.\<close>

definition identity_warp :: "real warp" where
  "identity_warp = exact_warp (\<lambda>x. x) (\<lambda>x. (x, identity3))"

text \<open>The uniform scale by two.\<close>

definition scale_warp :: "real warp" where
  "scale_warp =
     exact_warp (vscale 2) (\<lambda>x. (vscale 2 x, ((2, 0, 0), (0, 2, 0), (0, 0, 2))))"

text \<open>
  The warp \<open>(x, y, z) \<mapsto> (x\<^sup>3 - 2 x, y, z)\<close> with its Jacobian. Newton's method on
  it, for the target \<open>(2, 0, 0)\<close>, steps from \<open>0\<close> to \<open>-1\<close> and back towards \<open>0\<close>.
\<close>

fun cubic_point :: "real vec3 \<Rightarrow> real vec3" where
  "cubic_point (x, y, z) = (x * x * x - 2 * x, y, z)"

fun cubic_derivative :: "real vec3 \<Rightarrow> real vec3 \<times> real mat3" where
  "cubic_derivative (x, y, z) =
     ((x * x * x - 2 * x, y, z), ((3 * x * x - 2, 0, 0), (0, 1, 0), (0, 0, 1)))"

definition cubic_warp :: "real warp" where
  "cubic_warp = exact_warp cubic_point cubic_derivative"

text \<open>
  A warp with a narrow precision of its own: narrow numbers are the integers, widening is
  exact and narrowing rounds to the nearest integer. The forward transform
  \<open>(x, y, z) \<mapsto> (x / 2 + x / 2, y, z)\<close> is the identity in wide precision; its narrow
  version rounds each quotient.
\<close>

fun halves_point :: "real vec3 \<Rightarrow> real vec3" where
  "halves_point (x, y, z) = (x / 2 + x / 2, y, z)"

fun halves_point_narrow :: "int vec3 \<Rightarrow> int vec3" where
  "halves_point_narrow (x, y, z) = (round (real_of_int x / 2) + round (real_of_int x / 2), y, z)"

definition grid_warp :: "int warp" where
  "grid_warp =
     \<lparr>ForwardTransformPoint_d = halves_point,
      ForwardTransformDerivative_d = (\<lambda>x. (halves_point x, identity3)),
      ForwardTransformPoint_f = halves_point_narrow,
      ForwardTransformDerivative_f =
        (\<lambda>x. (halves_point_narrow x, ((1, 0, 0), (0, 1, 0), (0, 0, 1)))),
      LinearSolve3x3 = LinearSolve3x3_exact,
      Invert3x3_d = Invert3x3_exact,
      Invert3x3_f = (\<lambda>m. vmap (vmap round) (Invert3x3_exact (vmap (vmap real_of_int) m))),
      to_double = real_of_int, to_float = round\<rparr>"

text \<open>The instance after \<^verbatim>\<open>SetInverseIterations(n)\<close>.\<close>

definition budget :: "int \<Rightarrow> vtkWarpTransform" where
  "budget n = vtkWarpTransform_new\<lparr>InverseIterations := n\<rparr>"

text \<open>
  The warp \<open>(x, y, z) \<mapsto> (3 x\<^sup>2 - x, y, z)\<close> with its Jacobian. For the target
  \<open>(1, 0, 0)\<close> the first Newton step goes from \<open>0\<close> to \<open>-1\<close> and raises the squared
  error from \<open>1\<close> to \<open>9\<close>.
\<close>

fun quadratic_point :: "real vec3 \<Rightarrow> real vec3" where
  "quadratic_point (x, y, z) = (3 * x * x - x, y, z)"

fun quadratic_derivative :: "real vec3 \<Rightarrow> real vec3 \<times> real mat3" where
  "quadratic_derivative (x, y, z) =
     ((3 * x * x - x, y, z), ((6 * x - 1, 0, 0), (0, 1, 0), (0, 0, 1)))"

definition quadratic_warp :: "real warp" where
  "quadratic_warp = exact_warp quadratic_point quadratic_derivative"




text \<open>The variables of the run on the quadratic warp before its first pass.\<close>

definition quadratic_seed :: iter_state where
  "quadratic_seed =
     \<lparr>inverse = (0, 0, 0), deltaP = (- 1, 0, 0),
      derivative = ((- 1, 0, 0), (0, 1, 0), (0, 0, 1)), errorSquared = 1,
      calls = [FwdPoint (1, 0, 0), FwdDerivative (0, 0, 0)]\<rparr>"


definition cubic_result :: inverse_result where
  "cubic_result =
     \<lparr>output_pt = (- (1 / 2), 0, 0), iterations = 2, residualSquared = 81 / 64,
      debug_iterations = 3,
      warning = Some (NoConvergence (2, 0, 0) (sqrt (81 / 64)) 2),
      forward_calls =
        [FwdPoint (2, 0, 0), FwdDerivative (0, 0, 0), FwdDerivative (- 1, 0, 0),
         FwdDerivative (0, 0, 0), FwdDerivative (- (1 / 2), 0, 0)],
      history =
        [\<lparr>full_step = (- 1, 0, 0), full_error = 1, fraction = None,
          candidate = (- 1, 0, 0), error = 1\<rparr>,
         \<lparr>full_step = (0, 0, 0), full_error = 4, fraction = Some (1 / 2),
          candidate = (- (1 / 2), 0, 0), error = 81 / 64\<rparr>]\<rparr>"

definition identity_result :: inverse_result where
  "identity_result =
     \<lparr>output_pt = (1, 2, 3), iterations = 0, residualSquared = 0, debug_iterations = 1,
      warning = None,
      forward_calls = [FwdPoint (1, 2, 3), FwdDerivative (1, 2, 3)],
      history = []\<rparr>"

definition scale_result :: inverse_result where
  "scale_result =
     \<lparr>output_pt = (2, 1, 3), iterations = 1, residualSquared = 0, debug_iterations = 2,
      warning = Some (NoConvergence (4, 2, 6) 0 1),
      forward_calls = [FwdPoint (4, 2, 6), FwdDerivative (0, 0, 0), FwdDerivative (2, 1, 3)],
      history =
        [\<lparr>full_step = (2, 1, 3), full_error = 0, fraction = None,
          candidate = (2, 1, 3), error = 0\<rparr>]\<rparr>"


text \<open>The same run as \<open>scale_result\<close>, called in place.\<close>

definition scale_in_place :: inverse_result where
  "scale_in_place = scale_result\<lparr>warning := Some (NoConvergence (2, 1, 3) 0 1)\<rparr>"

text \<open>The variables of the run on the cubic warp after its first pass.\<close>

definition cubic_pass_1 :: iter_state where
  "cubic_pass_1 =
     \<lparr>inverse = (- 1, 0, 0), deltaP = (- 1, 0, 0),
      derivative = ((1, 0, 0), (0, 1, 0), (0, 0, 1)), errorSquared = 1,
      calls = [FwdPoint (2, 0, 0), FwdDerivative (0, 0, 0), FwdDerivative (- 1, 0, 0)]\<rparr>"

section \<open>The loop: basic facts\<close>

lemma clamp_defined:
  "le < e1 \<Longrightarrow> clamp_fraction (ieee_div d (2 * (e1 - le - d))) \<noteq> None"
proof (cases "2 * (e1 - le - d) = 0")
  case True
  assume "le < e1"
  with True have "0 < d" by simp
  with True show ?thesis by (simp add: clamp_fraction_def ieee_div_def)
next
  case False
  then show ?thesis by (simp add: clamp_fraction_def ieee_div_def Let_def)
qed

lemma clamp_bounds: "clamp_fraction q = Some f \<Longrightarrow> 1 / 10 \<le> f \<and> f \<le> 1 / 2"
  by (cases q) (auto simp: clamp_fraction_def Let_def split: if_splits)

lemma evaluate_at_simps [simp]:
  "inverse (evaluate_at W point cs x) = x"
  "deltaP (evaluate_at W point cs x) = vsub (fst (ForwardTransformDerivative_d W x)) point"
  "derivative (evaluate_at W point cs x) = snd (ForwardTransformDerivative_d W x)"
  "errorSquared (evaluate_at W point cs x) =
     sumsq (vsub (fst (ForwardTransformDerivative_d W x)) point)"
  "calls (evaluate_at W point cs x) = cs @ [FwdDerivative x]"
  by (simp_all add: evaluate_at_def Let_def split: prod.splits)

lemma newton_step_total: "\<exists>s' it. newton_step W point s = Inr (s', it)"
proof -
  let ?s1 = "evaluate_at W point (calls s)
               (vsub (inverse s) (LinearSolve3x3 W (derivative s) (deltaP s)))"
  show ?thesis
  proof (cases "errorSquared ?s1 > errorSquared s")
    case True
    from clamp_defined [OF True] obtain f where
      "clamp_fraction (ieee_div (dot (gradient_of (deltaP s) (derivative s))
          (LinearSolve3x3 W (derivative s) (deltaP s)))
        (2 * (errorSquared ?s1 - errorSquared s - dot (gradient_of (deltaP s) (derivative s))
          (LinearSolve3x3 W (derivative s) (deltaP s))))) = Some f"
      by blast
    with True show ?thesis by (simp add: newton_step_def Let_def del: evaluate_at_simps)
  next
    case False
    then show ?thesis by (simp add: newton_step_def Let_def del: evaluate_at_simps)
  qed
qed

text \<open>What one pass leaves behind, read off its record.\<close>

lemma newton_step_state:
  assumes "newton_step W point s = Inr (s', it)"
  shows "inverse s' = candidate it"
    and "errorSquared s' = error it"
    and "deltaP s' = vsub (fst (ForwardTransformDerivative_d W (inverse s'))) point"
    and "derivative s' = snd (ForwardTransformDerivative_d W (inverse s'))"
    and "errorSquared s' = sumsq (deltaP s')"
  using assms
  by (auto simp: newton_step_def Let_def split: if_splits option.splits)

lemma newton_step_calls:
  assumes "newton_step W point s = Inr (s', it)"
  shows "calls s' = calls s @ FwdDerivative (full_step it) #
           (if fraction it = None then [] else [FwdDerivative (candidate it)])"
  using assms
  by (auto simp: newton_step_def Let_def split: if_splits option.splits)

lemma newton_step_guard:
  assumes "newton_step W point s = Inr (s', it)"
  shows "if fraction it = None then error it \<le> errorSquared s \<and> full_error it = error it
         else errorSquared s < full_error it"
  using assms
  by (auto simp: newton_step_def Let_def split: if_splits option.splits)

lemma newton_loop_stop:
  "\<not> (i < n \<and> errorSquared s > tol2) \<Longrightarrow> newton_loop W point tol2 n i s = Inr (i, s, [])"
  by (subst newton_loop.simps) auto

lemma newton_loop_pass:
  "i < n \<Longrightarrow> errorSquared s > tol2 \<Longrightarrow> newton_step W point s = Inr (s', it) \<Longrightarrow>
   newton_loop W point tol2 n i s =
     (case newton_loop W point tol2 n (i + 1) s' of
        Inl e \<Rightarrow> Inl e
      | Inr (k, sf, its) \<Rightarrow> Inr (k, sf, it # its))"
  by (subst newton_loop.simps) simp

lemma newton_loop_total:
  "\<exists>k sf its. newton_loop W point tol2 n i s = Inr (k, sf, its)"
proof (induction W point tol2 n i s rule: newton_loop.induct)
  case (1 W point tol2 n i s)
  show ?case
  proof (cases "i < n \<and> errorSquared s > tol2")
    case True
    obtain s' it where st: "newton_step W point s = Inr (s', it)"
      using newton_step_total by blast
    from "1" [OF True st refl] obtain k sf its where
      "newton_loop W point tol2 n (i + 1) s' = Inr (k, sf, its)" by blast
    with True st show ?thesis by (simp add: newton_loop_pass)
  next
    case False
    then show ?thesis by (simp add: newton_loop_stop)
  qed
qed

text \<open>Induction over the passes of a loop that has returned.\<close>

lemma newton_loop_passes [consumes 1, case_names stop pass]:
  assumes run: "newton_loop W point tol2 n i s = Inr (k, sf, its)"
    and stop: "\<And>i s. \<not> (i < n \<and> errorSquared s > tol2) \<Longrightarrow> Q i s i s []"
    and pass: "\<And>i s s' it k sf its.
        i < n \<Longrightarrow> errorSquared s > tol2 \<Longrightarrow> newton_step W point s = Inr (s', it) \<Longrightarrow>
        newton_loop W point tol2 n (i + 1) s' = Inr (k, sf, its) \<Longrightarrow>
        Q (i + 1) s' k sf its \<Longrightarrow> Q i s k sf (it # its)"
  shows "Q i s k sf its"
  using run
proof (induction "nat (n - i)" arbitrary: i s k sf its)
  case 0
  then have "\<not> (i < n \<and> errorSquared s > tol2)" by simp
  with "0.prems" stop show ?case by (simp add: newton_loop_stop)
next
  case (Suc m)
  show ?case
  proof (cases "i < n \<and> errorSquared s > tol2")
    case False
    with Suc.prems stop show ?thesis by (simp add: newton_loop_stop)
  next
    case True
    obtain s' it where st: "newton_step W point s = Inr (s', it)"
      using newton_step_total by blast
    obtain k' sf' its' where
      rest: "newton_loop W point tol2 n (i + 1) s' = Inr (k', sf', its')"
      using newton_loop_total by blast
    from True st rest Suc.prems have eq: "k = k'" "sf = sf'" "its = it # its'"
      by (simp_all add: newton_loop_pass)
    from Suc.hyps(2) True have "m = nat (n - (i + 1))" by simp
    from Suc.hyps(1) [OF this rest] have "Q (i + 1) s' k' sf' its'" .
    with True st rest eq show ?thesis using pass by simp
  qed
qed



lemma newton_loop_count:
  assumes "newton_loop W point tol2 n i s = Inr (k, sf, its)"
  shows "k = i + int (length its) \<and> (its = [] \<or> k \<le> n)"
  using assms by (induction rule: newton_loop_passes) auto

lemma newton_loop_calls:
  assumes "newton_loop W point tol2 n i s = Inr (k, sf, its)"
  shows "\<exists>ys. calls sf = calls s @ ys \<and> list_all is_derivative_call ys"
  using assms
proof (induction rule: newton_loop_passes)
  case (stop i s)
  show ?case by simp
next
  case (pass i s s' it k sf its)
  then obtain ys where "calls sf = calls s' @ ys" "list_all is_derivative_call ys"
    by blast
  with newton_step_calls [OF pass(3)] show ?case by simp
qed

lemma newton_loop_guard:
  assumes "newton_loop W point tol2 n i s = Inr (k, sf, its)"
  shows "guarded_descent (errorSquared s) its"
  using assms
proof (induction rule: newton_loop_passes)
  case (stop i s)
  show ?case by simp
next
  case (pass i s s' it k sf its)
  from newton_step_guard [OF pass(3)] newton_step_state(2) [OF pass(3)] pass(5)
  show ?case by simp
qed

lemma newton_loop_last:
  assumes "newton_loop W point tol2 n i s = Inr (k, sf, its)"
  shows "inverse sf = last_candidate (inverse s) its \<and>
         errorSquared sf = last_error (errorSquared s) its"
  using assms
proof (induction rule: newton_loop_passes)
  case (stop i s)
  show ?case by simp
next
  case (pass i s s' it k sf its)
  with newton_step_state(1,2) [OF pass(3)] show ?case by simp
qed

lemma newton_loop_residual:
  assumes "newton_loop W point tol2 n i s = Inr (k, sf, its)"
    and "errorSquared s = sumsq (vsub (fst (ForwardTransformDerivative_d W (inverse s))) point)"
  shows "errorSquared sf = sumsq (vsub (fst (ForwardTransformDerivative_d W (inverse sf))) point)"
  using assms
proof (induction rule: newton_loop_passes)
  case (stop i s)
  then show ?case by simp
next
  case (pass i s s' it k sf its)
  from newton_step_state(3,5) [OF pass(3)] pass(5) show ?case by simp
qed

text \<open>The solver always returns, and its result is read off the loop.\<close>

lemma InverseTransformPoint_run_result:
  obtains k sf its where
    "newton_loop W point (InverseTolerance T * InverseTolerance T) (InverseIterations T) 0
       (evaluate_at W point [FwdPoint point]
          (first_guess (ForwardTransformPoint_d W point) point)) = Inr (k, sf, its)"
    and "InverseTransformPoint_run W T in_place point =
       Inr \<lparr>output_pt = inverse sf, iterations = k, residualSquared = errorSquared sf,
            debug_iterations = k + 1,
            warning =
              (if k \<ge> InverseIterations T then
                 Some (NoConvergence (if in_place then inverse sf else point)
                         (sqrt (errorSquared sf)) k)
               else None),
            forward_calls = calls sf, history = its\<rparr>"
proof -
  obtain k sf its where
    run: "newton_loop W point (InverseTolerance T * InverseTolerance T) (InverseIterations T) 0
       (evaluate_at W point [FwdPoint point]
          (first_guess (ForwardTransformPoint_d W point) point)) = Inr (k, sf, its)"
    using newton_loop_total by blast
  then show ?thesis
    using that by (simp add: InverseTransformPoint_run_def Let_def)
qed

section \<open>Concrete runs\<close>

lemmas run_defs =
  InverseTransformPoint_d_def InverseTransformPoint_run_def budget_def
  vtkWarpTransform_new_def exact_warp_def evaluate_at_def newton_loop.simps newton_step_def
  Let_def ieee_div_def clamp_fraction_def

lemma cubic_run: "InverseTransformPoint_d cubic_warp (budget 2) (2, 0, 0) = Inr cubic_result"
  by (simp add: run_defs cubic_warp_def cubic_result_def)

lemma identity_run:
  "InverseTransformPoint_d identity_warp vtkWarpTransform_new (1, 2, 3) = Inr identity_result"
  by (simp add: run_defs identity_warp_def identity_result_def identity3_def)

lemma scale_run_budget_1:
  "InverseTransformPoint_d scale_warp (budget 1) (4, 2, 6) = Inr scale_result"
  by (simp add: run_defs scale_warp_def scale_result_def)


section \<open>The result of the solver\<close>

lemma InverseTransformPoint_d_result:
  assumes "InverseTransformPoint_d W T P = Inr r"
  obtains k sf its where
    "newton_loop W P (InverseTolerance T * InverseTolerance T) (InverseIterations T) 0
       (evaluate_at W P [FwdPoint P] (first_guess (ForwardTransformPoint_d W P) P))
     = Inr (k, sf, its)"
    and "output_pt r = inverse sf" and "iterations r = k"
    and "residualSquared r = errorSquared sf" and "debug_iterations r = k + 1"
    and "warning r =
           (if k \<ge> InverseIterations T then Some (NoConvergence P (sqrt (errorSquared sf)) k)
            else None)"
    and "forward_calls r = calls sf" and "history r = its"
proof -
  obtain k sf its where
    run: "newton_loop W P (InverseTolerance T * InverseTolerance T) (InverseIterations T) 0
       (evaluate_at W P [FwdPoint P] (first_guess (ForwardTransformPoint_d W P) P))
     = Inr (k, sf, its)"
    and res: "InverseTransformPoint_run W T False P =
       Inr \<lparr>output_pt = inverse sf, iterations = k, residualSquared = errorSquared sf,
            debug_iterations = k + 1,
            warning =
              (if k \<ge> InverseIterations T then
                 Some (NoConvergence (if False then inverse sf else P)
                         (sqrt (errorSquared sf)) k)
               else None),
            forward_calls = calls sf, history = its\<rparr>"
    by (rule InverseTransformPoint_run_result)
  from res assms have
    "r = \<lparr>output_pt = inverse sf, iterations = k, residualSquared = errorSquared sf,
            debug_iterations = k + 1,
            warning =
              (if k \<ge> InverseIterations T then
                 Some (NoConvergence P (sqrt (errorSquared sf)) k)
               else None),
            forward_calls = calls sf, history = its\<rparr>"
    by (auto simp: InverseTransformPoint_d_def)
  with run show ?thesis using that by simp
qed

lemma InverseTransformPoint_d_total: "\<exists>r. InverseTransformPoint_d W T P = Inr r"
  unfolding InverseTransformPoint_d_def
  by (rule InverseTransformPoint_run_result [of W P T False]) blast


lemma sumsq_nonneg: "0 \<le> sumsq v"
  by (cases v) simp

section \<open>Claims\<close>






lemma InverseTransformPoint_f_total:
  "\<exists>p w. InverseTransformPoint_f W T y = Inr (p, w)"
  unfolding InverseTransformPoint_f_def Let_def
  by (rule InverseTransformPoint_run_result [of W "vmap (to_double W) y" T True])
    (simp del: split_paired_Ex)

text \<open>
  C2. For every input point: when the inverse flag is set, \<^verbatim>\<open>InternalTransformDerivative\<close>
  returns as its matrix the \<^verbatim>\<open>Invert3x3\<close> of the forward Jacobian taken at the input
  point itself, not at the inverse point, and as its point the result of the inverse solver
  on that same input; when the flag is clear it returns \<^verbatim>\<open>ForwardTransformDerivative\<close>
  of the input. Stated for the double and for the float version.
\<close>

theorem derivative_dispatch:
  "(InverseFlag T \<noteq> 0 \<longrightarrow>
      (\<exists>r. InverseTransformPoint_d W T x = Inr r \<and>
           InternalTransformDerivative_d W T x =
             Inr (output_pt r, Invert3x3_d W (snd (ForwardTransformDerivative_d W x)), warning r))
    \<and> (\<exists>p w. InverseTransformPoint_f W T y = Inr (p, w) \<and>
           InternalTransformDerivative_f W T y =
             Inr (p, Invert3x3_f W (snd (ForwardTransformDerivative_f W y)), w)))
   \<and> (InverseFlag T = 0 \<longrightarrow>
        InternalTransformDerivative_d W T x =
          Inr (fst (ForwardTransformDerivative_d W x), snd (ForwardTransformDerivative_d W x), None)
      \<and> InternalTransformDerivative_f W T y =
          Inr (fst (ForwardTransformDerivative_f W y), snd (ForwardTransformDerivative_f W y), None))"
proof (cases "InverseFlag T = 0")
  case True
  then show ?thesis
    by (simp add: InternalTransformDerivative_d_def InternalTransformDerivative_f_def
        split: prod.splits)
next
  case False
  obtain r where r: "InverseTransformPoint_d W T x = Inr r"
    using InverseTransformPoint_d_total by blast
  obtain p w where p: "InverseTransformPoint_f W T y = Inr (p, w)"
    using InverseTransformPoint_f_total by blast
  from False r have "InternalTransformDerivative_d W T x =
      Inr (output_pt r, Invert3x3_d W (snd (ForwardTransformDerivative_d W x)), warning r)"
    by (simp add: InternalTransformDerivative_d_def Let_def split: prod.splits)
  moreover from False p have "InternalTransformDerivative_f W T y =
      Inr (p, Invert3x3_f W (snd (ForwardTransformDerivative_f W y)), w)"
    by (simp add: InternalTransformDerivative_f_def Let_def split: prod.splits)
  ultimately show ?thesis using False r p by (simp del: split_paired_Ex)
qed

lemma cubic_run_inverse:
  "InverseTransformPoint_d cubic_warp (Inverse (budget 2)) (2, 0, 0) = Inr cubic_result"
  by (simp add: run_defs cubic_warp_def cubic_result_def Inverse_def Modified_def)

theorem derivative_dispatch_witness:
  "InverseFlag (Inverse (budget 2)) \<noteq> 0
   \<and> InternalTransformDerivative_d cubic_warp (Inverse (budget 2)) (2, 0, 0) =
       Inr ((- (1 / 2), 0, 0), ((1 / 10, 0, 0), (0, 1, 0), (0, 0, 1)),
            Some (NoConvergence (2, 0, 0) (sqrt (81 / 64)) 2))
   \<and> snd (ForwardTransformDerivative_d cubic_warp (- (1 / 2), 0, 0)) =
       ((- (5 / 4), 0, 0), (0, 1, 0), (0, 0, 1))
   \<and> InverseFlag (budget 2) = 0
   \<and> InternalTransformDerivative_d cubic_warp (budget 2) (2, 0, 0) =
       Inr ((4, 0, 0), ((10, 0, 0), (0, 1, 0), (0, 0, 1)), None)"
proof -
  have f1: "InverseFlag (Inverse (budget 2)) \<noteq> 0"
    by (simp add: Inverse_def Modified_def budget_def vtkWarpTransform_new_def)
  have f0: "InverseFlag (budget 2) = 0"
    by (simp add: budget_def vtkWarpTransform_new_def)
  from derivative_dispatch [of "Inverse (budget 2)" cubic_warp "(2, 0, 0)" "(2, 0, 0)"] f1
    cubic_run_inverse
  have a: "InternalTransformDerivative_d cubic_warp (Inverse (budget 2)) (2, 0, 0) =
       Inr ((- (1 / 2), 0, 0), ((1 / 10, 0, 0), (0, 1, 0), (0, 0, 1)),
            Some (NoConvergence (2, 0, 0) (sqrt (81 / 64)) 2))"
    by (simp add: cubic_result_def cubic_warp_def exact_warp_def)
  from derivative_dispatch [of "budget 2" cubic_warp "(2, 0, 0)" "(2, 0, 0)"] f0
  have b: "InternalTransformDerivative_d cubic_warp (budget 2) (2, 0, 0) =
       Inr ((4, 0, 0), ((10, 0, 0), (0, 1, 0), (0, 0, 1)), None)"
    by (simp add: cubic_warp_def exact_warp_def)
  have c: "snd (ForwardTransformDerivative_d cubic_warp (- (1 / 2), 0, 0)) =
       ((- (5 / 4), 0, 0), (0, 1, 0), (0, 0, 1))"
    by (simp add: cubic_warp_def exact_warp_def)
  from f1 a c f0 b show ?thesis by blast
qed

text \<open>
  C6. For every target point \<open>P\<close>, the first candidate of the inverse solver is
  \<open>P - (Forward(P) - P)\<close>, that is \<open>2 P - Forward(P)\<close>. It is computed from one call of
  \<^verbatim>\<open>ForwardTransformPoint\<close>, the first call the solver makes and the only one of that
  function; the solver then evaluates the derivative at this candidate and the loop starts
  from it.
\<close>

lemma first_guess_reflect:
  "first_guess F P = vsub P (vsub F P) \<and> first_guess F P = vsub (vscale 2 P) F"
  by (cases F, cases P) simp

theorem initial_candidate:
  assumes "InverseTransformPoint_d W T P = Inr r"
  shows "first_guess (ForwardTransformPoint_d W P) P
           = vsub P (vsub (ForwardTransformPoint_d W P) P)
       \<and> first_guess (ForwardTransformPoint_d W P) P
           = vsub (vscale 2 P) (ForwardTransformPoint_d W P)
       \<and> forward_calls r
           = FwdPoint P # FwdDerivative (first_guess (ForwardTransformPoint_d W P) P)
               # drop 2 (forward_calls r)
       \<and> list_all is_derivative_call (drop 2 (forward_calls r))
       \<and> output_pt r = last_candidate (first_guess (ForwardTransformPoint_d W P) P) (history r)"
proof -
  let ?x0 = "first_guess (ForwardTransformPoint_d W P) P"
  from assms obtain k sf its where
    run: "newton_loop W P (InverseTolerance T * InverseTolerance T) (InverseIterations T) 0
       (evaluate_at W P [FwdPoint P] ?x0) = Inr (k, sf, its)"
    and r: "output_pt r = inverse sf" "forward_calls r = calls sf" "history r = its"
    by (rule InverseTransformPoint_d_result)
  from newton_loop_calls [OF run] obtain ys where
    ys: "calls sf = [FwdPoint P, FwdDerivative ?x0] @ ys" "list_all is_derivative_call ys"
    by auto
  from newton_loop_last [OF run] have "inverse sf = last_candidate ?x0 its" by simp
  with r have out: "output_pt r = last_candidate ?x0 (history r)" by simp
  from ys r have cs: "forward_calls r = FwdPoint P # FwdDerivative ?x0 # drop 2 (forward_calls r)"
    and ds: "list_all is_derivative_call (drop 2 (forward_calls r))"
    by simp_all
  from first_guess_reflect [of "ForwardTransformPoint_d W P" P] cs ds out
  show ?thesis by blast
qed

theorem initial_candidate_witness:
  "InverseTransformPoint_d cubic_warp (budget 2) (2, 0, 0) = Inr cubic_result
   \<and> ForwardTransformPoint_d cubic_warp (2, 0, 0) = (4, 0, 0)
   \<and> first_guess (ForwardTransformPoint_d cubic_warp (2, 0, 0)) (2, 0, 0) = (0, 0, 0)
   \<and> forward_calls cubic_result
       = FwdPoint (2, 0, 0) # FwdDerivative (0, 0, 0) # drop 2 (forward_calls cubic_result)
   \<and> list_all is_derivative_call (drop 2 (forward_calls cubic_result))"
  using initial_candidate [OF cubic_run] cubic_run
  by (simp add: cubic_warp_def exact_warp_def)

text \<open>
  C9, as stated: for the identity transform the solver returns \<open>P\<close> and converges in exactly
  one iteration. The final value of the loop counter, which the warning calls the number of
  iterations, is not one.
\<close>

theorem identity_counterexample:
  "iterations_of (InverseTransformPoint_d identity_warp vtkWarpTransform_new (1, 2, 3)) \<noteq> Some 1"
  by (simp add: identity_run iterations_of_def identity_result_def)

text \<open>
  C9, amended: if the forward transform is the identity, with the identity Jacobian
  everywhere, then for every target point \<open>P\<close>, every tolerance and every budget the solver
  returns exactly \<open>P\<close> without entering the loop: the loop counter ends at zero, no pass is
  recorded, the squared error is zero, the forward transform has been called twice (once for
  the first guess, once for its error), and the debug message, which prints the counter plus
  one, says one. The warning is given exactly when the budget is not positive.
\<close>

theorem identity_no_pass:
  assumes "ForwardTransformPoint_d W = (\<lambda>x. x)"
    and "ForwardTransformDerivative_d W = (\<lambda>x. (x, identity3))"
  shows "\<exists>r. InverseTransformPoint_d W T P = Inr r \<and> output_pt r = P \<and> iterations r = 0
           \<and> history r = [] \<and> residualSquared r = 0 \<and> debug_iterations r = 1
           \<and> forward_calls r = [FwdPoint P, FwdDerivative P]
           \<and> (warning r = None) = (0 < InverseIterations T)"
proof -
  obtain p0 p1 p2 where P: "P = (p0, p1, p2)" by (cases P) auto
  have x0: "first_guess (ForwardTransformPoint_d W P) P = P"
    by (simp add: assms P)
  have e0: "errorSquared (evaluate_at W P [FwdPoint P] P) = 0"
    by (simp add: assms P)
  have "\<not> (0 < InverseIterations T \<and>
           errorSquared (evaluate_at W P [FwdPoint P] P) > InverseTolerance T * InverseTolerance T)"
    using e0 by simp
  then have "newton_loop W P (InverseTolerance T * InverseTolerance T) (InverseIterations T) 0
      (evaluate_at W P [FwdPoint P] P) = Inr (0, evaluate_at W P [FwdPoint P] P, [])"
    by (rule newton_loop_stop)
  with x0 e0 show ?thesis
    by (auto simp: InverseTransformPoint_d_def InverseTransformPoint_run_def Let_def)
qed

theorem identity_no_pass_witness:
  "ForwardTransformPoint_d identity_warp = (\<lambda>x. x)
   \<and> ForwardTransformDerivative_d identity_warp = (\<lambda>x. (x, identity3))
   \<and> InverseTransformPoint_d identity_warp vtkWarpTransform_new (1, 2, 3) = Inr identity_result
   \<and> output_pt identity_result = (1, 2, 3) \<and> iterations identity_result = 0
   \<and> debug_iterations identity_result = 1"
proof -
  have a: "ForwardTransformPoint_d identity_warp = (\<lambda>x. x)"
    and b: "ForwardTransformDerivative_d identity_warp = (\<lambda>x. (x, identity3))"
    by (simp_all add: identity_warp_def exact_warp_def)
  from identity_no_pass [OF a b, of vtkWarpTransform_new "(1, 2, 3)"] a b identity_run
  show ?thesis by auto
qed



text \<open>
  C3, as stated: within one call of the inverse solver the squared errors recorded at the
  end of the passes never grow from one pass to the next, for every forward transform and
  every point. For the warp \<open>x\<^sup>3 - 2 x\<close>, target \<open>(2, 0, 0)\<close>, the first pass records
  \<open>1\<close> and the second, after its fractional step, \<open>81 / 64\<close>.
\<close>

theorem error_sequence_counterexample:
  "InverseTransformPoint_d cubic_warp (budget 2) (2, 0, 0) = Inr cubic_result
   \<and> \<not> nonincreasing (map error (history cubic_result))"
  by (simp add: cubic_run) (simp add: cubic_result_def)

lemma guarded_descent_nonincreasing:
  "guarded_descent e its \<Longrightarrow> list_all (\<lambda>it. fraction it = None) its \<Longrightarrow>
   nonincreasing (e # map error its)"
  by (induction its arbitrary: e) auto

text \<open>
  C3, amended: within one call, a pass that keeps the full Newton step records an error
  that is not above the error before the pass; a pass takes the fractional step only when
  the full step has raised the error, and then records the error of the one fractional
  candidate without comparing it. So the recorded sequence, from the error of the first
  guess on, never grows over the passes that took no fractional step, and in a call
  where no pass backtracked it is non-increasing throughout.
\<close>

theorem error_sequence_guarded:
  assumes "InverseTransformPoint_d W T P = Inr r"
    and "e0 = sumsq (vsub (fst (ForwardTransformDerivative_d W
                (first_guess (ForwardTransformPoint_d W P) P))) P)"
  shows "guarded_descent e0 (history r)
       \<and> (list_all (\<lambda>it. fraction it = None) (history r) \<longrightarrow>
            nonincreasing (e0 # map error (history r)))"
proof -
  from assms(1) obtain k sf its where
    run: "newton_loop W P (InverseTolerance T * InverseTolerance T) (InverseIterations T) 0
       (evaluate_at W P [FwdPoint P] (first_guess (ForwardTransformPoint_d W P) P))
       = Inr (k, sf, its)"
    and r: "history r = its"
    by (rule InverseTransformPoint_d_result)
  from newton_loop_guard [OF run] r assms(2) have "guarded_descent e0 (history r)" by simp
  then show ?thesis using guarded_descent_nonincreasing by blast
qed

theorem error_sequence_guarded_witness:
  "InverseTransformPoint_d cubic_warp (budget 2) (2, 0, 0) = Inr cubic_result
   \<and> guarded_descent 4 (history cubic_result)
   \<and> InverseTransformPoint_d scale_warp (budget 1) (4, 2, 6) = Inr scale_result
   \<and> list_all (\<lambda>it. fraction it = None) (history scale_result)
   \<and> nonincreasing (56 # map error (history scale_result))"
proof -
  have a: "(4::real) = sumsq (vsub (fst (ForwardTransformDerivative_d cubic_warp
                (first_guess (ForwardTransformPoint_d cubic_warp (2, 0, 0)) (2, 0, 0)))) (2, 0, 0))"
    by (simp add: cubic_warp_def exact_warp_def)
  have b: "(56::real) = sumsq (vsub (fst (ForwardTransformDerivative_d scale_warp
                (first_guess (ForwardTransformPoint_d scale_warp (4, 2, 6)) (4, 2, 6)))) (4, 2, 6))"
    by (simp add: scale_warp_def exact_warp_def)
  have c: "list_all (\<lambda>it. fraction it = None) (history scale_result)"
    by (simp add: scale_result_def)
  from error_sequence_guarded [OF cubic_run a] error_sequence_guarded [OF scale_run_budget_1 b] c
    cubic_run scale_run_budget_1
  show ?thesis by blast
qed

text \<open>
  C4, as stated: when the budget is exhausted without meeting the tolerance, the returned
  point is the candidate of smallest squared error over all passes. In the run above the
  budget of two passes is used up, the tolerance is not met, and the point returned is the
  candidate of the second pass, whose error \<open>81 / 64\<close> is above that of the first.
\<close>

theorem best_candidate_counterexample:
  "InverseTransformPoint_d cubic_warp (budget 2) (2, 0, 0) = Inr cubic_result
   \<and> InverseIterations (budget 2) \<le> iterations cubic_result
   \<and> InverseTolerance (budget 2) * InverseTolerance (budget 2) < residualSquared cubic_result
   \<and> \<not> returns_best cubic_result"
  by (simp add: cubic_run)
    (simp add: cubic_result_def budget_def vtkWarpTransform_new_def returns_best_def)

lemma scale_in_place_run:
  "InverseTransformPoint_run scale_warp (budget 1) True (4, 2, 6) = Inr scale_in_place"
  by (simp add: run_defs scale_warp_def scale_result_def scale_in_place_def)

lemma guarded_descent_best:
  "guarded_descent e its \<Longrightarrow> list_all (\<lambda>it. fraction it = None) its \<Longrightarrow>
   last_error e its \<le> e \<and> list_all (\<lambda>it. last_error e its \<le> error it) its"
proof (induction its arbitrary: e)
  case Nil
  show ?case by simp
next
  case (Cons it its)
  from Cons.prems have g: "error it \<le> e" "guarded_descent (error it) its"
    and n: "list_all (\<lambda>it. fraction it = None) its"
    by simp_all
  from Cons.IH [OF g(2) n] g(1) show ?case by simp
qed

text \<open>
  C4, amended: every call of the inverse solver returns a point, on every input: the
  candidate of the last pass made (the first guess when no pass was made), together with
  its squared error, which is the sum of the squares of the components of the forward
  transform at the returned point minus the target. The number of passes is the final loop
  counter and does not exceed the budget. The returned point has the smallest squared error
  of all candidates, the first guess included, when no pass took a fractional step; in
  general it has not. When the counter has reached the budget, and only then, the call
  gives a warning and nothing else: it carries the square root of the final squared error,
  the counter, and the coordinates that the array \<^verbatim>\<open>point\<close> holds after the output has
  been written, which are the target when the caller passed two arrays and the returned
  point when the call is in place, as the one of the float version is.
\<close>

theorem exhausted_budget_returns_last:
  assumes "P = (p0, p1, p2)"
    and "x0 = first_guess (ForwardTransformPoint_d W P) P"
    and "e0 = sumsq (vsub (fst (ForwardTransformDerivative_d W x0)) P)"
  shows "\<exists>r. InverseTransformPoint_run W T in_place P = Inr r
      \<and> output_pt r = last_candidate x0 (history r)
      \<and> residualSquared r = last_error e0 (history r)
      \<and> residualSquared r
          = (fst (fst (ForwardTransformDerivative_d W (output_pt r))) - p0)\<^sup>2
            + (fst (snd (fst (ForwardTransformDerivative_d W (output_pt r)))) - p1)\<^sup>2
            + (snd (snd (fst (ForwardTransformDerivative_d W (output_pt r)))) - p2)\<^sup>2
      \<and> iterations r = int (length (history r))
      \<and> (history r = [] \<or> iterations r \<le> InverseIterations T)
      \<and> (list_all (\<lambda>it. fraction it = None) (history r) \<longrightarrow>
           returns_best r \<and> residualSquared r \<le> e0)
      \<and> warning r =
          (if InverseIterations T \<le> iterations r
           then Some (NoConvergence (if in_place then output_pt r else P)
                        (sqrt (residualSquared r)) (iterations r))
           else None)
      \<and> InverseTransformPoint_d W T P = InverseTransformPoint_run W T False P
      \<and> InverseTransformPoint_f W T y =
          (case InverseTransformPoint_run W T True (vmap (to_double W) y) of
             Inl e \<Rightarrow> Inl e
           | Inr r' \<Rightarrow> Inr (vmap (to_float W) (output_pt r'), warning r'))"
proof -
  obtain k sf its where
    run: "newton_loop W P (InverseTolerance T * InverseTolerance T) (InverseIterations T) 0
       (evaluate_at W P [FwdPoint P] (first_guess (ForwardTransformPoint_d W P) P))
       = Inr (k, sf, its)"
    and res: "InverseTransformPoint_run W T in_place P =
       Inr \<lparr>output_pt = inverse sf, iterations = k, residualSquared = errorSquared sf,
            debug_iterations = k + 1,
            warning =
              (if k \<ge> InverseIterations T then
                 Some (NoConvergence (if in_place then inverse sf else P)
                         (sqrt (errorSquared sf)) k)
               else None),
            forward_calls = calls sf, history = its\<rparr>"
    by (rule InverseTransformPoint_run_result)
  define r where "r =
       \<lparr>output_pt = inverse sf, iterations = k, residualSquared = errorSquared sf,
            debug_iterations = k + 1,
            warning =
              (if k \<ge> InverseIterations T then
                 Some (NoConvergence (if in_place then inverse sf else P)
                         (sqrt (errorSquared sf)) k)
               else None),
            forward_calls = calls sf, history = its\<rparr>"
  have r: "output_pt r = inverse sf" "iterations r = k" "residualSquared r = errorSquared sf"
    "history r = its"
    "warning r =
       (if k \<ge> InverseIterations T then
          Some (NoConvergence (if in_place then inverse sf else P) (sqrt (errorSquared sf)) k)
        else None)"
    by (simp_all add: r_def)
  from newton_loop_last [OF run] r assms(2,3)
  have a: "output_pt r = last_candidate x0 (history r)"
    and b: "residualSquared r = last_error e0 (history r)"
    by simp_all
  obtain q0 q1 q2 where q: "fst (ForwardTransformDerivative_d W (output_pt r)) = (q0, q1, q2)"
    by (cases "fst (ForwardTransformDerivative_d W (output_pt r))") auto
  from newton_loop_residual [OF run] r
  have "residualSquared r = sumsq (vsub (fst (ForwardTransformDerivative_d W (output_pt r))) P)"
    by simp
  with q assms(1)
  have c: "residualSquared r
          = (fst (fst (ForwardTransformDerivative_d W (output_pt r))) - p0)\<^sup>2
            + (fst (snd (fst (ForwardTransformDerivative_d W (output_pt r)))) - p1)\<^sup>2
            + (snd (snd (fst (ForwardTransformDerivative_d W (output_pt r)))) - p2)\<^sup>2"
    by (simp add: power2_eq_square)
  from newton_loop_count [OF run] r
  have d: "iterations r = int (length (history r))"
    and e: "history r = [] \<or> iterations r \<le> InverseIterations T"
    by auto
  from newton_loop_guard [OF run] r assms(2,3) have "guarded_descent e0 (history r)" by simp
  from guarded_descent_best [OF this] b
  have f: "list_all (\<lambda>it. fraction it = None) (history r) \<longrightarrow>
           returns_best r \<and> residualSquared r \<le> e0"
    by (simp add: returns_best_def)
  from r have g: "warning r =
          (if InverseIterations T \<le> iterations r
           then Some (NoConvergence (if in_place then output_pt r else P)
                        (sqrt (residualSquared r)) (iterations r))
           else None)"
    by simp
  have h: "InverseTransformPoint_d W T P = InverseTransformPoint_run W T False P"
    by (simp add: InverseTransformPoint_d_def)
  have i: "InverseTransformPoint_f W T y =
          (case InverseTransformPoint_run W T True (vmap (to_double W) y) of
             Inl e \<Rightarrow> Inl e
           | Inr r' \<Rightarrow> Inr (vmap (to_float W) (output_pt r'), warning r'))"
    by (simp add: InverseTransformPoint_f_def Let_def)
  from res have "InverseTransformPoint_run W T in_place P = Inr r" by (simp add: r_def)
  with a b c d e f g h i show ?thesis by blast
qed

theorem exhausted_budget_returns_last_witness:
  "InverseTransformPoint_run cubic_warp (budget 2) False (2, 0, 0) = Inr cubic_result
   \<and> InverseIterations (budget 2) \<le> iterations cubic_result
   \<and> output_pt cubic_result = candidate (last (history cubic_result))
   \<and> warning cubic_result = Some (NoConvergence (2, 0, 0) (sqrt (81 / 64)) 2)
   \<and> InverseTransformPoint_run scale_warp (budget 1) True (4, 2, 6) = Inr scale_in_place
   \<and> list_all (\<lambda>it. fraction it = None) (history scale_in_place)
   \<and> returns_best scale_in_place
   \<and> warning scale_in_place = Some (NoConvergence (2, 1, 3) 0 1)"
proof -
  have c: "InverseTransformPoint_run cubic_warp (budget 2) False (2, 0, 0) = Inr cubic_result"
    using cubic_run by (simp add: InverseTransformPoint_d_def)
  have a: "InverseIterations (budget 2) \<le> iterations cubic_result"
    and b: "InverseIterations (budget 1) \<le> iterations scale_in_place"
    and n: "list_all (\<lambda>it. fraction it = None) (history scale_in_place)"
    by (simp_all add: cubic_result_def scale_in_place_def scale_result_def budget_def
        vtkWarpTransform_new_def)
  from exhausted_budget_returns_last [OF refl refl refl, of cubic_warp "budget 2" False 2 0 0] c a
  have w1: "warning cubic_result
      = Some (NoConvergence (2, 0, 0) (sqrt (residualSquared cubic_result))
               (iterations cubic_result))"
    by auto
  from exhausted_budget_returns_last [OF refl refl refl, of scale_warp "budget 1" True 4 2 6]
    scale_in_place_run b n
  have w2: "warning scale_in_place
      = Some (NoConvergence (output_pt scale_in_place) (sqrt (residualSquared scale_in_place))
               (iterations scale_in_place))"
    and best: "returns_best scale_in_place"
    by auto
  from w1 have w1': "warning cubic_result = Some (NoConvergence (2, 0, 0) (sqrt (81 / 64)) 2)"
    by (simp add: cubic_result_def)
  from w2 have w2': "warning scale_in_place = Some (NoConvergence (2, 1, 3) 0 1)"
    by (simp add: scale_in_place_def scale_result_def)
  have l: "output_pt cubic_result = candidate (last (history cubic_result))"
    by (simp add: cubic_result_def)
  from c a l w1' scale_in_place_run n best w2' show ?thesis by blast
qed

lemma cubic_first_pass:
  "newton_step cubic_warp (2, 0, 0) (evaluate_at cubic_warp (2, 0, 0) [FwdPoint (2, 0, 0)]
       (first_guess (ForwardTransformPoint_d cubic_warp (2, 0, 0)) (2, 0, 0)))
   = Inr (cubic_pass_1,
          \<lparr>full_step = (- 1, 0, 0), full_error = 1, fraction = None,
           candidate = (- 1, 0, 0), error = 1\<rparr>)"
  by (simp add: cubic_warp_def exact_warp_def evaluate_at_def newton_step_def Let_def
      cubic_pass_1_def)

lemma clamp_finite: "clamp_fraction (Finite q) = Some (max (1 / 10) (min (1 / 2) q))"
  by (simp add: clamp_fraction_def Let_def max_def min_def)

lemma clamp_ieee_div:
  "clamp_fraction (ieee_div d den) =
     (if den \<noteq> 0 then Some (max (1 / 10) (min (1 / 2) (d / den)))
      else if 0 < d then Some (1 / 2)
      else if d < 0 then Some (1 / 10)
      else None)"
proof (cases "den = 0")
  case True
  then show ?thesis by (simp add: clamp_fraction_def ieee_div_def)
next
  case False
  then show ?thesis by (simp add: ieee_div_def clamp_finite)
qed

text \<open>
  C5. Whenever the full Newton step strictly raises the squared error, the candidate the
  pass accepts is \<open>lastInverse - f * deltaI\<close>, component by component, where \<open>f\<close> is the
  quotient \<open>d / (2 * (errorSquared_new - errorSquared_prev - d))\<close> with
  \<open>d = \<Sum>\<^sub>i 2 * residual\<^sub>i * Jacobian[i][i] * deltaI\<^sub>i\<close>, residual and Jacobian being those
  before the step, clamped so that \<open>0.1 \<le> f \<le> 0.5\<close>. (When the divisor is zero the
  dividend is positive here, the quotient of doubles is plus infinity and the clamp gives
  \<open>0.5\<close>.) The pass evaluates the forward transform at the full step and at this one
  candidate, and records the squared error of the candidate: there is no retry.
\<close>

theorem backtracking_step:
  assumes P: "P = (p0, p1, p2)"
    and l: "inverse s = (l0, l1, l2)"
    and r: "deltaP s = (r0, r1, r2)"
    and j: "derivative s = ((j00, j01, j02), (j10, j11, j12), (j20, j21, j22))"
    and dI: "LinearSolve3x3 W (derivative s) (deltaP s) = (d0, d1, d2)"
    and n: "fst (ForwardTransformDerivative_d W (l0 - d0, l1 - d1, l2 - d2)) = (n0, n1, n2)"
    and e: "e_new = (n0 - p0)\<^sup>2 + (n1 - p1)\<^sup>2 + (n2 - p2)\<^sup>2"
    and worse: "errorSquared s < e_new"
    and d: "d = 2 * r0 * j00 * d0 + 2 * r1 * j11 * d1 + 2 * r2 * j22 * d2"
    and den: "den = 2 * (e_new - errorSquared s - d)"
    and f: "f = (if den = 0 then 1 / 2 else max (1 / 10) (min (1 / 2) (d / den)))"
    and c: "fst (ForwardTransformDerivative_d W (l0 - f * d0, l1 - f * d1, l2 - f * d2))
              = (c0, c1, c2)"
  shows "\<exists>s' it. newton_step W P s = Inr (s', it)
           \<and> inverse s' = (l0 - f * d0, l1 - f * d1, l2 - f * d2)
           \<and> 1 / 10 \<le> f \<and> f \<le> 1 / 2
           \<and> fraction it = Some f \<and> candidate it = inverse s'
           \<and> full_step it = (l0 - d0, l1 - d1, l2 - d2) \<and> full_error it = e_new
           \<and> errorSquared s' = (c0 - p0)\<^sup>2 + (c1 - p1)\<^sup>2 + (c2 - p2)\<^sup>2
           \<and> error it = errorSquared s'
           \<and> calls s' = calls s @ [FwdDerivative (l0 - d0, l1 - d1, l2 - d2),
                                    FwdDerivative (l0 - f * d0, l1 - f * d1, l2 - f * d2)]"
proof -
  let ?deltaI = "(d0, d1, d2)"
  have dd: "dot (gradient_of (deltaP s) (derivative s)) ?deltaI = d"
    by (simp add: r j d)
  have pos: "den = 0 \<Longrightarrow> 0 < d"
    using worse den by simp
  have cl: "clamp_fraction (ieee_div d den) = Some f"
    using pos by (auto simp: clamp_ieee_div f)
  have b: "1 / 10 \<le> f \<and> f \<le> 1 / 2"
    using clamp_bounds [OF cl] .
  have full: "vsub (inverse s) ?deltaI = (l0 - d0, l1 - d1, l2 - d2)"
    by (simp add: l)
  have frac: "fractional_step (inverse s) f ?deltaI = (l0 - f * d0, l1 - f * d1, l2 - f * d2)"
    by (simp add: l)
  let ?s1 = "evaluate_at W P (calls s) (vsub (inverse s) ?deltaI)"
  let ?s2 = "evaluate_at W P (calls ?s1) (fractional_step (inverse s) f ?deltaI)"
  have e1: "errorSquared ?s1 = e_new"
    by (simp add: full n P e power2_eq_square)
  have e2: "errorSquared ?s2 = (c0 - p0)\<^sup>2 + (c1 - p1)\<^sup>2 + (c2 - p2)\<^sup>2"
    by (simp add: frac c P power2_eq_square)
  have "newton_step W P s =
          Inr (?s2, \<lparr>full_step = inverse ?s1, full_error = errorSquared ?s1,
                     fraction = Some f, candidate = inverse ?s2, error = errorSquared ?s2\<rparr>)"
    using worse cl
    by (simp add: newton_step_def Let_def dI dd e1 den del: evaluate_at_simps)
  with b e1 e2 full frac show ?thesis by simp
qed

lemma quadratic_seed_reached:
  "evaluate_at quadratic_warp (1, 0, 0) [FwdPoint (1, 0, 0)]
     (first_guess (ForwardTransformPoint_d quadratic_warp (1, 0, 0)) (1, 0, 0)) = quadratic_seed"
  by (simp add: quadratic_warp_def exact_warp_def evaluate_at_def quadratic_seed_def)

theorem backtracking_step_witness:
  "errorSquared quadratic_seed < 9
   \<and> (\<exists>s' it. newton_step quadratic_warp (1, 0, 0) quadratic_seed = Inr (s', it)
         \<and> inverse s' = (- (1 / 6), 0, 0) \<and> fraction it = Some (1 / 6)
         \<and> full_step it = (- 1, 0, 0) \<and> full_error it = 9
         \<and> errorSquared s' = 9 / 16)
   \<and> errorSquared cubic_pass_1 < 4
   \<and> (\<exists>s' it. newton_step cubic_warp (2, 0, 0) cubic_pass_1 = Inr (s', it)
         \<and> inverse s' = (- (1 / 2), 0, 0) \<and> fraction it = Some (1 / 2)
         \<and> full_step it = (0, 0, 0) \<and> full_error it = 4
         \<and> errorSquared s' = 81 / 64)"
proof -
  have q: "\<exists>s' it. newton_step quadratic_warp (1, 0, 0) quadratic_seed = Inr (s', it)
         \<and> inverse s' = (- (1 / 6), 0, 0) \<and> fraction it = Some (1 / 6)
         \<and> full_step it = (- 1, 0, 0) \<and> full_error it = 9
         \<and> errorSquared s' = 9 / 16"
  proof -
    have l: "inverse quadratic_seed = (0, 0, 0)"
      and r: "deltaP quadratic_seed = (- 1, 0, 0)"
      and j: "derivative quadratic_seed = ((- 1, 0, 0), (0, 1, 0), (0, 0, 1))"
      and w: "errorSquared quadratic_seed < 9"
      by (simp_all add: quadratic_seed_def)
    have dI: "LinearSolve3x3 quadratic_warp (derivative quadratic_seed) (deltaP quadratic_seed)
        = (1, 0, 0)"
      by (simp add: quadratic_seed_def quadratic_warp_def exact_warp_def)
    have n: "fst (ForwardTransformDerivative_d quadratic_warp (0 - 1, 0 - 0, 0 - 0)) = (4, 0, 0)"
      by (simp add: quadratic_warp_def exact_warp_def)
    have e: "(9::real) = (4 - 1)\<^sup>2 + (0 - 0)\<^sup>2 + (0 - 0)\<^sup>2" by simp
    have d: "(2::real) = 2 * (- 1) * (- 1) * 1 + 2 * 0 * 1 * 0 + 2 * 0 * 1 * 0" by simp
    have den: "(12::real) = 2 * (9 - errorSquared quadratic_seed - 2)"
      by (simp add: quadratic_seed_def)
    have f: "(1 / 6 :: real)
        = (if (12::real) = 0 then 1 / 2 else max (1 / 10) (min (1 / 2) (2 / 12)))"
      by simp
    have c: "fst (ForwardTransformDerivative_d quadratic_warp
                (0 - 1 / 6 * 1, 0 - 1 / 6 * 0, 0 - 1 / 6 * 0)) = (1 / 4, 0, 0)"
      by (simp add: quadratic_warp_def exact_warp_def)
    from backtracking_step [OF refl l r j dI n e w d den f c]
    show ?thesis by (auto simp: power2_eq_square)
  qed
  have k: "\<exists>s' it. newton_step cubic_warp (2, 0, 0) cubic_pass_1 = Inr (s', it)
         \<and> inverse s' = (- (1 / 2), 0, 0) \<and> fraction it = Some (1 / 2)
         \<and> full_step it = (0, 0, 0) \<and> full_error it = 4
         \<and> errorSquared s' = 81 / 64"
  proof -
    have l: "inverse cubic_pass_1 = (- 1, 0, 0)"
      and r: "deltaP cubic_pass_1 = (- 1, 0, 0)"
      and j: "derivative cubic_pass_1 = ((1, 0, 0), (0, 1, 0), (0, 0, 1))"
      by (simp_all add: cubic_pass_1_def)
    have w: "errorSquared cubic_pass_1 < 4" by (simp add: cubic_pass_1_def)
    have dI: "LinearSolve3x3 cubic_warp (derivative cubic_pass_1) (deltaP cubic_pass_1)
        = (- 1, 0, 0)"
      by (simp add: cubic_pass_1_def cubic_warp_def exact_warp_def)
    have n: "fst (ForwardTransformDerivative_d cubic_warp (- 1 - (- 1), 0 - 0, 0 - 0)) = (0, 0, 0)"
      by (simp add: cubic_warp_def exact_warp_def)
    have e: "(4::real) = (0 - 2)\<^sup>2 + (0 - 0)\<^sup>2 + (0 - 0)\<^sup>2" by simp
    have d: "(2::real) = 2 * (- 1) * 1 * (- 1) + 2 * 0 * 1 * 0 + 2 * 0 * 1 * 0" by simp
    have den: "(2::real) = 2 * (4 - errorSquared cubic_pass_1 - 2)"
      by (simp add: cubic_pass_1_def)
    have f: "(1 / 2 :: real) = (if (2::real) = 0 then 1 / 2 else max (1 / 10) (min (1 / 2) (2 / 2)))"
      by simp
    have c: "fst (ForwardTransformDerivative_d cubic_warp
                (- 1 - 1 / 2 * (- 1), 0 - 1 / 2 * 0, 0 - 1 / 2 * 0)) = (7 / 8, 0, 0)"
      by (simp add: cubic_warp_def exact_warp_def)
    from backtracking_step [OF refl l r j dI n e w d den f c]
    show ?thesis by (auto simp: power2_eq_square)
  qed
  have "errorSquared quadratic_seed < 9" "errorSquared cubic_pass_1 < 4"
    by (simp_all add: quadratic_seed_def cubic_pass_1_def)
  with q k show ?thesis by blast
qed

lemma InverseTransformPoint_run_config:
  "InverseTolerance T' = InverseTolerance T \<Longrightarrow> InverseIterations T' = InverseIterations T \<Longrightarrow>
   InverseTransformPoint_run W T' b P = InverseTransformPoint_run W T b P"
  by (simp add: InverseTransformPoint_run_def Let_def split: sum.splits prod.splits)

lemma Inverse_fields:
  "InverseTolerance (Inverse T) = InverseTolerance T"
  "InverseIterations (Inverse T) = InverseIterations T"
  "(InverseFlag (Inverse T) \<noteq> 0) = (InverseFlag T = 0)"
  "(InverseFlag (Inverse T) = 0) = (InverseFlag T \<noteq> 0)"
  "MTime (Inverse T) = MTime T + 1"
  by (simp_all add: Inverse_def Modified_def)

lemma evaluation_reads_mode:
  assumes "InverseTolerance T' = InverseTolerance T"
    and "InverseIterations T' = InverseIterations T"
    and "(InverseFlag T' \<noteq> 0) = (InverseFlag T \<noteq> 0)"
  shows "InternalTransformPoint_d W T' x = InternalTransformPoint_d W T x"
    and "InternalTransformPoint_f W T' y = InternalTransformPoint_f W T y"
    and "InternalTransformDerivative_d W T' x = InternalTransformDerivative_d W T x"
    and "InternalTransformDerivative_f W T' y = InternalTransformDerivative_f W T y"
proof -
  have run: "InverseTransformPoint_run W T' b P = InverseTransformPoint_run W T b P" for b P
    by (rule InverseTransformPoint_run_config [OF assms(1,2)])
  have flag: "(InverseFlag T' = 0) = (InverseFlag T = 0)"
    using assms(3) by blast
  show "InternalTransformPoint_d W T' x = InternalTransformPoint_d W T x"
    by (simp add: InternalTransformPoint_d_def InverseTransformPoint_d_def run flag)
  show "InternalTransformPoint_f W T' y = InternalTransformPoint_f W T y"
    by (simp add: InternalTransformPoint_f_def InverseTransformPoint_f_def run flag)
  show "InternalTransformDerivative_d W T' x = InternalTransformDerivative_d W T x"
    by (simp add: InternalTransformDerivative_d_def InverseTransformPoint_d_def run flag)
  show "InternalTransformDerivative_f W T' y = InternalTransformDerivative_f W T y"
    by (simp add: InternalTransformDerivative_f_def InverseTransformPoint_f_def run flag)
qed

text \<open>
  C7. \<^verbatim>\<open>Inverse()\<close> toggles the mode and leaves the tolerance and the budget alone:
  applied twice it restores the mode (and the very value of the flag, which is \<open>0\<close> or
  \<open>1\<close> on every instance that the constructor and \<^verbatim>\<open>Inverse()\<close> produce). An
  instance on which it has been applied twice gives, for every evaluation call, of a point
  or of a point with its derivative, at either precision, the outcome that the untouched
  instance gives; and an evaluation call returns the instance as it received it, flag,
  tolerance and budget included.
\<close>

theorem inverse_is_toggle:
  "(InverseFlag (Inverse T) \<noteq> 0) = (InverseFlag T = 0)
   \<and> (InverseFlag (Inverse (Inverse T)) \<noteq> 0) = (InverseFlag T \<noteq> 0)
   \<and> (InverseFlag T = 0 \<or> InverseFlag T = 1 \<longrightarrow>
        InverseFlag (Inverse (Inverse T)) = InverseFlag T)
   \<and> InverseTolerance (Inverse T) = InverseTolerance T
   \<and> InverseIterations (Inverse T) = InverseIterations T
   \<and> (is_evaluation m \<longrightarrow>
        snd (invoke W (Inverse (Inverse T)) m) = snd (invoke W T m)
        \<and> fst (invoke W T m) = T)"
proof -
  have c: "InverseTolerance (Inverse (Inverse T)) = InverseTolerance T"
    "InverseIterations (Inverse (Inverse T)) = InverseIterations T"
    "(InverseFlag (Inverse (Inverse T)) \<noteq> 0) = (InverseFlag T \<noteq> 0)"
    by (simp_all add: Inverse_fields)
  have "is_evaluation m \<longrightarrow>
        snd (invoke W (Inverse (Inverse T)) m) = snd (invoke W T m) \<and> fst (invoke W T m) = T"
    by (cases m) (simp_all add: evaluation_reads_mode [OF c])
  moreover have "InverseFlag T = 0 \<or> InverseFlag T = 1 \<longrightarrow>
        InverseFlag (Inverse (Inverse T)) = InverseFlag T"
    by (auto simp: Inverse_def Modified_def)
  ultimately show ?thesis by (simp add: Inverse_fields)
qed

theorem inverse_is_toggle_witness:
  "is_evaluation (Call_InternalTransformPoint_d (2, 0, 0) :: real member_call)
   \<and> (InverseFlag (budget 2) = 0 \<or> InverseFlag (budget 2) = 1)
   \<and> InverseFlag (Inverse (Inverse (budget 2))) = 0
   \<and> InverseFlag (Inverse (budget 2)) = 1
   \<and> snd (invoke cubic_warp (Inverse (Inverse (budget 2))) (Call_InternalTransformPoint_d (2, 0, 0)))
       = Point_d (Inr ((4, 0, 0), None))
   \<and> fst (invoke cubic_warp (Inverse (budget 2)) (Call_InternalTransformPoint_d (2, 0, 0)))
       = Inverse (budget 2)
   \<and> snd (invoke cubic_warp (Inverse (Inverse (Inverse (budget 2))))
            (Call_InternalTransformPoint_d (2, 0, 0)))
       = Point_d (Inr ((- (1 / 2), 0, 0), Some (NoConvergence (2, 0, 0) (sqrt (81 / 64)) 2)))"
proof -
  have e: "is_evaluation (Call_InternalTransformPoint_d (2, 0, 0) :: real member_call)" by simp
  have f0: "InverseFlag (budget 2) = 0" by (simp add: budget_def vtkWarpTransform_new_def)
  have f1: "InverseFlag (Inverse (budget 2)) = 1" by (simp add: Inverse_def Modified_def f0)
  have a: "snd (invoke cubic_warp (budget 2) (Call_InternalTransformPoint_d (2, 0, 0)))
      = Point_d (Inr ((4, 0, 0), None))"
    by (simp add: InternalTransformPoint_d_def f0 cubic_warp_def exact_warp_def)
  have b: "snd (invoke cubic_warp (Inverse (budget 2)) (Call_InternalTransformPoint_d (2, 0, 0)))
      = Point_d (Inr ((- (1 / 2), 0, 0), Some (NoConvergence (2, 0, 0) (sqrt (81 / 64)) 2)))"
    by (simp add: InternalTransformPoint_d_def f1 cubic_run_inverse) (simp add: cubic_result_def)
  from inverse_is_toggle [of "budget 2" "Call_InternalTransformPoint_d (2, 0, 0)" cubic_warp]
    inverse_is_toggle [of "Inverse (budget 2)" "Call_InternalTransformPoint_d (2, 0, 0)" cubic_warp]
    e f0 f1 a b
  show ?thesis by simp
qed

text \<open>
  C8, as stated: at every entry point the narrow path is: convert the input to wide
  precision, run the wide entry point, convert the result back. With the inverse flag
  clear, \<^verbatim>\<open>InternalTransformPoint\<close> on floats is the float version of the forward
  transform, which rounds on its own.
\<close>

theorem narrow_forward_counterexample:
  "point_of (InternalTransformPoint_f grid_warp vtkWarpTransform_new (1, 0, 0))
     \<noteq> shim_of_point grid_warp
         (InternalTransformPoint_d grid_warp vtkWarpTransform_new
            (vmap (to_double grid_warp) (1, 0, 0)))"
  by (simp add: point_of_def shim_of_point_def InternalTransformPoint_f_def
      InternalTransformPoint_d_def vtkWarpTransform_new_def grid_warp_def round_def)

lemma InverseTransformPoint_f_shim:
  "point_of (InverseTransformPoint_f W T x) =
     (case InverseTransformPoint_d W T (vmap (to_double W) x) of
        Inl e \<Rightarrow> Inl e
      | Inr r \<Rightarrow> Inr (vmap (to_float W) (output_pt r)))"
  by (simp add: point_of_def InverseTransformPoint_f_def InverseTransformPoint_d_def
      InverseTransformPoint_run_def Let_def split: sum.splits prod.splits)

text \<open>
  C8, amended: the float version of \<^verbatim>\<open>InverseTransformPoint\<close> converts its input to
  double, runs the double solver and converts the returned point back, so the solver never
  iterates on floats; \<^verbatim>\<open>InternalTransformPoint\<close> on floats is that same path when the
  inverse flag is set, and the float forward transform of the warp when it is clear;
  \<^verbatim>\<open>InternalTransformDerivative\<close> on floats takes its point from the float
  \<^verbatim>\<open>InverseTransformPoint\<close> when the flag is set, but its matrix from the float forward
  derivative, inverted by the float \<^verbatim>\<open>Invert3x3\<close>, and is the float forward derivative
  when the flag is clear.
\<close>

theorem narrow_precision_paths:
  "point_of (InverseTransformPoint_f W T x) =
     (case InverseTransformPoint_d W T (vmap (to_double W) x) of
        Inl e \<Rightarrow> Inl e
      | Inr r \<Rightarrow> Inr (vmap (to_float W) (output_pt r)))
   \<and> point_of (InternalTransformPoint_f W T x) =
       (if InverseFlag T \<noteq> 0
        then shim_of_point W (InternalTransformPoint_d W T (vmap (to_double W) x))
        else Inr (ForwardTransformPoint_f W x))
   \<and> InternalTransformDerivative_f W T x =
       (if InverseFlag T \<noteq> 0
        then (case InverseTransformPoint_f W T x of
                Inl e \<Rightarrow> Inl e
              | Inr (p, w) \<Rightarrow> Inr (p, Invert3x3_f W (snd (ForwardTransformDerivative_f W x)), w))
        else Inr (fst (ForwardTransformDerivative_f W x),
                  snd (ForwardTransformDerivative_f W x), None))"
proof -
  have a: "point_of (InternalTransformPoint_f W T x) =
       (if InverseFlag T \<noteq> 0
        then shim_of_point W (InternalTransformPoint_d W T (vmap (to_double W) x))
        else Inr (ForwardTransformPoint_f W x))"
  proof (cases "InverseFlag T = 0")
    case True
    then show ?thesis by (simp add: InternalTransformPoint_f_def point_of_def)
  next
    case False
    then show ?thesis
      by (simp add: InternalTransformPoint_f_def InternalTransformPoint_d_def
          InverseTransformPoint_f_shim shim_of_point_def split: sum.splits)
  qed
  have b: "InternalTransformDerivative_f W T x =
       (if InverseFlag T \<noteq> 0
        then (case InverseTransformPoint_f W T x of
                Inl e \<Rightarrow> Inl e
              | Inr (p, w) \<Rightarrow> Inr (p, Invert3x3_f W (snd (ForwardTransformDerivative_f W x)), w))
        else Inr (fst (ForwardTransformDerivative_f W x),
                  snd (ForwardTransformDerivative_f W x), None))"
    by (simp add: InternalTransformDerivative_f_def Let_def split_beta)
  from InverseTransformPoint_f_shim a b show ?thesis by blast
qed

theorem narrow_precision_paths_witness:
  "InverseFlag (Inverse vtkWarpTransform_new) \<noteq> 0
   \<and> point_of (InternalTransformPoint_f grid_warp (Inverse vtkWarpTransform_new) (1, 0, 0))
       = Inr (1, 0, 0)
   \<and> shim_of_point grid_warp
       (InternalTransformPoint_d grid_warp (Inverse vtkWarpTransform_new)
          (vmap (to_double grid_warp) (1, 0, 0))) = Inr (1, 0, 0)
   \<and> point_of (InternalTransformPoint_f grid_warp vtkWarpTransform_new (1, 0, 0)) = Inr (2, 0, 0)"
proof -
  have f1: "InverseFlag (Inverse vtkWarpTransform_new) \<noteq> 0"
    and f0: "InverseFlag vtkWarpTransform_new = 0"
    by (simp_all add: Inverse_def Modified_def vtkWarpTransform_new_def)
  have d: "shim_of_point grid_warp
       (InternalTransformPoint_d grid_warp (Inverse vtkWarpTransform_new)
          (vmap (to_double grid_warp) (1, 0, 0))) = Inr (1, 0, 0)"
    by (simp add: shim_of_point_def InternalTransformPoint_d_def InverseTransformPoint_d_def
        InverseTransformPoint_run_def Inverse_def Modified_def vtkWarpTransform_new_def
        grid_warp_def evaluate_at_def newton_loop.simps Let_def)
  from narrow_precision_paths [of grid_warp "Inverse vtkWarpTransform_new" "(1, 0, 0)"] f1 d
  have a: "point_of (InternalTransformPoint_f grid_warp (Inverse vtkWarpTransform_new) (1, 0, 0))
       = Inr (1, 0, 0)"
    by simp
  from narrow_precision_paths [of grid_warp vtkWarpTransform_new "(1, 0, 0)"] f0
  have b: "point_of (InternalTransformPoint_f grid_warp vtkWarpTransform_new (1, 0, 0))
       = Inr (2, 0, 0)"
    by (simp add: grid_warp_def round_def)
  from f1 a d b show ?thesis by blast
qed

end
